theory Spec2Isabelle
  imports Main "HOL-Library.Sublist"
begin

section \<open>Data model (lib/api.ts)\<close>

text \<open>
  JavaScript strings are modelled as \<open>string\<close>; a string is falsy exactly when it is
  empty. An optional field (\<open>size?: string\<close>) or a nullable one is an \<open>option\<close>, with
  \<open>None\<close> for \<open>undefined\<close>/\<open>null\<close>. The numeric \<open>id\<close> of a stored file is an integer.
  Strings are well-formed text (no lone surrogate), so that \<open>encodeURIComponent\<close> returns.
\<close>

record DataroomFile =
  r_id :: int
  r_name :: string
  r_mime_type :: "string option"
  r_size :: "int option"
  r_google_drive_id :: string
  r_created_at :: string

record DriveFile =
  d_id :: string
  d_name :: string
  d_mimeType :: string
  d_size :: "string option"
  d_modifiedTime :: "string option"
  d_iconLink :: "string option"
  d_thumbnailLink :: "string option"

section \<open>Template literals of numbers\<close>

definition digit :: "nat \<Rightarrow> char" where
  "digit n = ''0123456789'' ! n"

function show_nat :: "nat \<Rightarrow> string" where
  "show_nat n = (if n < 10 then [digit n] else show_nat (n div 10) @ [digit (n mod 10)])"
  by pat_completeness auto
termination
  by (relation "measure (\<lambda>n. n)") auto

definition show_int :: "int \<Rightarrow> string" where
  "show_int i = (if i < 0 then ''-'' @ show_nat (nat (- i)) else show_nat (nat i))"

section \<open>The network and the browser\<close>

datatype http_method = GET | POST | DELETE

text \<open>
  The object that \<open>importFile\<close> passes to \<open>JSON.stringify\<close>. The \<open>size\<close> entry is
  \<open>file.size ? parseInt(file.size) : null\<close>: \<open>SizeNull\<close> is the \<open>null\<close>, and
  \<open>ParseInt s\<close> stands for the number that \<open>parseInt\<close> returns on \<open>s\<close>.
\<close>

datatype size_json = SizeNull | ParseInt string

record import_body =
  file_id :: string
  name :: string
  mime_type :: string
  size :: size_json

text \<open>
  A request as the server sees it: the path, the decoded query parameters in the order in
  which they were set (\<open>URLSearchParams\<close> and \<open>encodeURIComponent\<close> encode them, the
  server decodes them), the headers and the body.
\<close>

record request =
  req_method :: http_method
  req_path :: string
  req_query :: "(string \<times> string) list"
  req_headers :: "(string \<times> string) list"
  req_body :: "import_body option"

text \<open>
  A parsed response body, read at the type the client declares for it. Bodies are JSON
  objects; a field the object does not have reads as \<open>undefined\<close> (\<open>None\<close> below).
  \<open>ErrorPayload\<close> is the body of an error response, \<open>{error?: string}\<close>.
\<close>

datatype payload =
    ErrorPayload "string option"
  | AuthStatus bool
  | AuthUrl string
  | DriveList "DriveFile list option" "string option"
  | Imported bool DataroomFile
  | RoomFiles "DataroomFile list"

text \<open>
  What \<open>await fetch(...)\<close> gives: the promise rejects (no connection), or it resolves to
  a response with a status and a body; the body is \<open>None\<close> when it is not JSON, so that
  \<open>res.json()\<close> rejects.
\<close>

datatype outcome = Rejected | Response nat "payload option"

datatype exn = NetworkFailure | JsonSyntaxError | Error string

text \<open>Everything a handler does to the world outside its component, in order.\<close>

datatype event =
    Fetch request
  | ConsoleError string exn
  | Alert string
  | Confirm string
  | Navigate "string option"
  | OnImport
  | OnClose
  | OnDelete

text \<open>
  The environment answers each request and each confirm dialog; the answer may depend on
  everything that happened before.
\<close>

record env =
  respond :: "event list \<Rightarrow> request \<Rightarrow> outcome"
  confirm_answer :: "event list \<Rightarrow> string \<Rightarrow> bool"

definition fetch :: "env \<Rightarrow> request \<Rightarrow> event list \<Rightarrow> outcome \<times> event list" where
  "fetch e r w = (respond e w r, w @ [Fetch r])"

definition res_ok :: "nat \<Rightarrow> bool" where
  "res_ok st \<longleftrightarrow> 200 \<le> st \<and> st \<le> 299"

definition res_json :: "payload option \<Rightarrow> exn + payload" where
  "res_json b = (case b of None \<Rightarrow> Inl JsonSyntaxError | Some p \<Rightarrow> Inr p)"

fun payload_error :: "payload \<Rightarrow> string option" where
  "payload_error (ErrorPayload m) = m"
| "payload_error _ = None"

fun payload_authenticated :: "payload \<Rightarrow> bool option" where
  "payload_authenticated (AuthStatus b) = Some b"
| "payload_authenticated _ = None"

fun payload_auth_url :: "payload \<Rightarrow> string option" where
  "payload_auth_url (AuthUrl u) = Some u"
| "payload_auth_url _ = None"

fun payload_drive_files :: "payload \<Rightarrow> DriveFile list option" where
  "payload_drive_files (DriveList fs t) = fs"
| "payload_drive_files _ = None"

fun payload_nextPageToken :: "payload \<Rightarrow> string option" where
  "payload_nextPageToken (DriveList fs t) = t"
| "payload_nextPageToken _ = None"

fun payload_files :: "payload \<Rightarrow> DataroomFile list option" where
  "payload_files (RoomFiles fs) = Some fs"
| "payload_files _ = None"

section \<open>API client (lib/api.ts)\<close>

definition API_BASE :: string where
  "API_BASE = ''/api''"

definition plain_request :: "http_method \<Rightarrow> string \<Rightarrow> (string \<times> string) list \<Rightarrow> request" where
  "plain_request m p q =
     \<lparr>req_method = m, req_path = p, req_query = q, req_headers = [], req_body = None\<rparr>"

definition getAuthStatus :: "env \<Rightarrow> event list \<Rightarrow> (exn + payload) \<times> event list" where
  "getAuthStatus e w =
     (case fetch e (plain_request GET (API_BASE @ ''/auth/status'') []) w of
        (Rejected, w') \<Rightarrow> (Inl NetworkFailure, w')
      | (Response st b, w') \<Rightarrow> (res_json b, w'))"

definition getAuthUrl :: "env \<Rightarrow> event list \<Rightarrow> (exn + payload) \<times> event list" where
  "getAuthUrl e w =
     (case fetch e (plain_request GET (API_BASE @ ''/auth/login'') []) w of
        (Rejected, w') \<Rightarrow> (Inl NetworkFailure, w')
      | (Response st b, w') \<Rightarrow> (res_json b, w'))"

definition logout :: "env \<Rightarrow> event list \<Rightarrow> (exn + unit) \<times> event list" where
  "logout e w =
     (case fetch e (plain_request POST (API_BASE @ ''/auth/logout'') []) w of
        (Rejected, w') \<Rightarrow> (Inl NetworkFailure, w')
      | (Response st b, w') \<Rightarrow> (Inr (), w'))"

text \<open>\<open>if (pageToken) params.set(...)\<close>: an undefined or empty argument sets nothing.\<close>

definition param :: "string \<Rightarrow> string option \<Rightarrow> (string \<times> string) list" where
  "param k v = (case v of None \<Rightarrow> [] | Some s \<Rightarrow> if s = [] then [] else [(k, s)])"

definition listDriveFiles_request :: "string option \<Rightarrow> string option \<Rightarrow> request" where
  "listDriveFiles_request pageToken query =
     plain_request GET (API_BASE @ ''/drive/files'')
       (param ''pageToken'' pageToken @ param ''query'' query)"

definition listDriveFiles ::
  "env \<Rightarrow> string option \<Rightarrow> string option \<Rightarrow> event list \<Rightarrow> (exn + payload) \<times> event list" where
  "listDriveFiles e pageToken query w =
     (case fetch e (listDriveFiles_request pageToken query) w of
        (Rejected, w') \<Rightarrow> (Inl NetworkFailure, w')
      | (Response st b, w') \<Rightarrow>
          if \<not> res_ok st then (Inl (Error ''Failed to fetch drive files''), w')
          else (res_json b, w'))"

text \<open>\<open>file.size ? parseInt(file.size) : null\<close>\<close>

definition size_arg :: "string option \<Rightarrow> size_json" where
  "size_arg sz = (case sz of None \<Rightarrow> SizeNull
                 | Some s \<Rightarrow> if s = [] then SizeNull else ParseInt s)"

definition importFile_request :: "DriveFile \<Rightarrow> request" where
  "importFile_request file =
     \<lparr>req_method = POST, req_path = API_BASE @ ''/drive/import'', req_query = [],
      req_headers = [(''Content-Type'', ''application/json'')],
      req_body = Some \<lparr>file_id = d_id file, name = d_name file, mime_type = d_mimeType file,
        size = size_arg (d_size file)\<rparr>\<rparr>"

text \<open>\<open>error.error || 'Failed to import file'\<close>\<close>

definition import_error_message :: "payload \<Rightarrow> string" where
  "import_error_message p =
     (case payload_error p of None \<Rightarrow> ''Failed to import file''
      | Some m \<Rightarrow> if m = [] then ''Failed to import file'' else m)"

definition importFile :: "env \<Rightarrow> DriveFile \<Rightarrow> event list \<Rightarrow> (exn + payload) \<times> event list" where
  "importFile e file w =
     (case fetch e (importFile_request file) w of
        (Rejected, w') \<Rightarrow> (Inl NetworkFailure, w')
      | (Response st b, w') \<Rightarrow>
          if \<not> res_ok st then
            (case res_json b of
               Inl x \<Rightarrow> (Inl x, w')
             | Inr p \<Rightarrow> (Inl (Error (import_error_message p)), w'))
          else (res_json b, w'))"

definition listFiles :: "env \<Rightarrow> event list \<Rightarrow> (exn + payload) \<times> event list" where
  "listFiles e w =
     (case fetch e (plain_request GET (API_BASE @ ''/files'') []) w of
        (Rejected, w') \<Rightarrow> (Inl NetworkFailure, w')
      | (Response st b, w') \<Rightarrow> (res_json b, w'))"

definition searchFiles :: "env \<Rightarrow> string \<Rightarrow> event list \<Rightarrow> (exn + payload) \<times> event list" where
  "searchFiles e query w =
     (case fetch e (plain_request GET (API_BASE @ ''/files/search'') [(''q'', query)]) w of
        (Rejected, w') \<Rightarrow> (Inl NetworkFailure, w')
      | (Response st b, w') \<Rightarrow> (res_json b, w'))"

definition deleteFile_request :: "int \<Rightarrow> request" where
  "deleteFile_request fileId =
     plain_request DELETE (API_BASE @ ''/files/'' @ show_int fileId) []"

definition deleteFile :: "env \<Rightarrow> int \<Rightarrow> event list \<Rightarrow> (exn + unit) \<times> event list" where
  "deleteFile e fileId w =
     (case fetch e (deleteFile_request fileId) w of
        (Rejected, w') \<Rightarrow> (Inl NetworkFailure, w')
      | (Response st b, w') \<Rightarrow>
          if \<not> res_ok st then (Inl (Error ''Failed to delete file''), w')
          else (Inr (), w'))"

definition getFileUrl :: "int \<Rightarrow> string" where
  "getFileUrl fileId = API_BASE @ ''/files/'' @ show_int fileId"

section \<open>Drive file picker (components/DriveFilePicker.tsx)\<close>

text \<open>
  A handler runs against the state its render captured and the events so far, and gives
  the state after all its updates and the events after it. It runs to completion: no
  other handler runs while it awaits. The first component of a result is the error with
  which the handler's promise rejects, \<open>None\<close> when it does not. The callbacks that the
  parent supplies (\<open>onImport\<close>, \<open>onClose\<close>, \<open>onDelete\<close>) are events: they are called and
  return normally, as those of \<open>App.tsx\<close> do.
\<close>

record picker_state =
  files :: "DriveFile list"
  loading :: bool
  searchQuery :: string
  selectedFiles :: "string set"
  importing :: bool
  nextPageToken :: "string option"
  prevTokens :: "string list"

definition fetchFiles ::
  "env \<Rightarrow> string option \<Rightarrow> string option \<Rightarrow> picker_state \<Rightarrow> event list
     \<Rightarrow> exn option \<times> picker_state \<times> event list" where
  "fetchFiles e pageToken query s w =
     (case listDriveFiles e pageToken query w of
        (Inr result, w') \<Rightarrow>
          (None,
           s\<lparr>files := (case payload_drive_files result of None \<Rightarrow> [] | Some fs \<Rightarrow> fs),
             nextPageToken := payload_nextPageToken result,
             loading := False\<rparr>,
           w')
      | (Inl error, w') \<Rightarrow>
          (None, s\<lparr>loading := False\<rparr>,
           w' @ [ConsoleError ''Failed to fetch drive files:'' error]))"

definition handleSearch ::
  "env \<Rightarrow> picker_state \<Rightarrow> event list \<Rightarrow> exn option \<times> picker_state \<times> event list" where
  "handleSearch e s w = fetchFiles e None (Some (searchQuery s)) (s\<lparr>prevTokens := []\<rparr>) w"

definition handleNextPage ::
  "env \<Rightarrow> picker_state \<Rightarrow> event list \<Rightarrow> exn option \<times> picker_state \<times> event list" where
  "handleNextPage e s w =
     (case nextPageToken s of
        None \<Rightarrow> (None, s, w)
      | Some t \<Rightarrow>
          if t = [] then (None, s, w)
          else fetchFiles e (Some t) (Some (searchQuery s))
                 (s\<lparr>prevTokens := prevTokens s @ [[]]\<rparr>) w)"

definition handlePrevPage ::
  "env \<Rightarrow> picker_state \<Rightarrow> event list \<Rightarrow> exn option \<times> picker_state \<times> event list" where
  "handlePrevPage e s w =
     (if length (prevTokens s) > 0 then
        (let newPrevTokens = butlast (prevTokens s);
             token = last (prevTokens s)
         in fetchFiles e (if token = [] then None else Some token) (Some (searchQuery s))
              (s\<lparr>prevTokens := newPrevTokens\<rparr>) w)
      else (None, s, w))"

definition toggleSelect :: "string \<Rightarrow> picker_state \<Rightarrow> picker_state" where
  "toggleSelect fileId s =
     s\<lparr>selectedFiles :=
         (if fileId \<in> selectedFiles s then selectedFiles s - {fileId}
          else insert fileId (selectedFiles s))\<rparr>"

fun import_loop ::
  "env \<Rightarrow> DriveFile list \<Rightarrow> nat \<Rightarrow> nat \<Rightarrow> event list \<Rightarrow> nat \<times> nat \<times> event list" where
  "import_loop e [] successCount errorCount w = (successCount, errorCount, w)"
| "import_loop e (file # rest) successCount errorCount w =
     (case importFile e file w of
        (Inr r, w') \<Rightarrow> import_loop e rest (successCount + 1) errorCount w'
      | (Inl error, w') \<Rightarrow>
          import_loop e rest successCount (errorCount + 1)
            (w' @ [ConsoleError (''Failed to import '' @ d_name file @ '':'') error]))"

definition import_summary :: "nat \<Rightarrow> nat \<Rightarrow> string" where
  "import_summary successCount errorCount =
     ''Imported '' @ show_nat successCount @ '' file(s). '' @ show_nat errorCount
       @ '' file(s) failed or already exist.''"

definition filesToImport :: "picker_state \<Rightarrow> DriveFile list" where
  "filesToImport s = filter (\<lambda>f. d_id f \<in> selectedFiles s) (files s)"

definition handleImport ::
  "env \<Rightarrow> picker_state \<Rightarrow> event list \<Rightarrow> exn option \<times> picker_state \<times> event list" where
  "handleImport e s w =
     (if length (filesToImport s) = 0 then (None, s, w)
      else
        (case import_loop e (filesToImport s) 0 0 w of
           (successCount, errorCount, w') \<Rightarrow>
             (None, s\<lparr>importing := False\<rparr>,
              (if errorCount > 0 then w' @ [Alert (import_summary successCount errorCount)]
               else w') @ [OnImport, OnClose])))"

definition isGoogleDoc :: "string \<Rightarrow> bool" where
  "isGoogleDoc mimeType \<longleftrightarrow> prefix ''application/vnd.google-apps.'' mimeType"

definition isFolder :: "string \<Rightarrow> bool" where
  "isFolder mimeType \<longleftrightarrow> mimeType = ''application/vnd.google-apps.folder''"

text \<open>
  The file list of the modal. \<open>formatFileSize\<close> formats a floating-point number, so it
  is a parameter here; it is applied to \<open>file.size ? parseInt(file.size) : null\<close>.
\<close>

record row =
  row_key :: string
  row_checked :: bool
  row_name :: string
  row_label :: string

datatype view = Spinner | NoFilesFound | FileRows "row list"

definition shown_files :: "picker_state \<Rightarrow> DriveFile list" where
  "shown_files s = filter (\<lambda>f. \<not> isFolder (d_mimeType f)) (files s)"

definition size_line :: "(size_json \<Rightarrow> string) \<Rightarrow> DriveFile \<Rightarrow> string" where
  "size_line formatFileSize file =
     (if isGoogleDoc (d_mimeType file) then ''Google Doc''
      else formatFileSize (size_arg (d_size file)))"

definition render_row :: "(size_json \<Rightarrow> string) \<Rightarrow> picker_state \<Rightarrow> DriveFile \<Rightarrow> row" where
  "render_row formatFileSize s file =
     \<lparr>row_key = d_id file, row_checked = (d_id file \<in> selectedFiles s),
      row_name = d_name file, row_label = size_line formatFileSize file\<rparr>"

definition render_list :: "(size_json \<Rightarrow> string) \<Rightarrow> picker_state \<Rightarrow> view" where
  "render_list formatFileSize s =
     (if loading s then Spinner
      else if length (files s) = 0 then NoFilesFound
      else FileRows (map (render_row formatFileSize s) (shown_files s)))"

section \<open>File card (components/FileCard.tsx)\<close>

definition delete_prompt :: "DataroomFile \<Rightarrow> string" where
  "delete_prompt file =
     ''Delete '' @ [CHR 0x22] @ r_name file @ [CHR 0x22] @ '' from the dataroom?''"

definition handleDelete ::
  "env \<Rightarrow> DataroomFile \<Rightarrow> event list \<Rightarrow> exn option \<times> event list" where
  "handleDelete e file w =
     (if \<not> confirm_answer e w (delete_prompt file)
      then (None, w @ [Confirm (delete_prompt file)])
      else
        (case deleteFile e (r_id file) (w @ [Confirm (delete_prompt file)]) of
           (Inr u, w') \<Rightarrow> (None, w' @ [OnDelete])
         | (Inl error, w') \<Rightarrow>
             (None, w' @ [Alert ''Failed to delete file. Please try again.''])))"

section \<open>Root component (App.tsx)\<close>

text \<open>
  \<open>authenticated\<close> starts as \<open>null\<close>; a status body without the field stores
  \<open>undefined\<close>. \<open>files\<close> is \<open>None\<close> when a body without the field was stored.
\<close>

datatype auth = AuthNull | AuthUndefined | AuthBool bool

record app_state =
  authenticated :: auth
  app_files :: "DataroomFile list option"
  app_loading :: bool
  app_searchQuery :: string
  showPicker :: bool

definition app_fetchFiles ::
  "env \<Rightarrow> app_state \<Rightarrow> event list \<Rightarrow> exn option \<times> app_state \<times> event list" where
  "app_fetchFiles e s w =
     (case (if app_searchQuery s \<noteq> [] then searchFiles e (app_searchQuery s) w
            else listFiles e w) of
        (Inr p, w') \<Rightarrow> (None, s\<lparr>app_files := payload_files p, app_loading := False\<rparr>, w')
      | (Inl error, w') \<Rightarrow>
          (None, s\<lparr>app_loading := False\<rparr>,
           w' @ [ConsoleError ''Failed to fetch files:'' error]))"

definition checkAuth ::
  "env \<Rightarrow> app_state \<Rightarrow> event list \<Rightarrow> exn option \<times> app_state \<times> event list" where
  "checkAuth e s w =
     (case getAuthStatus e w of
        (Inr p, w') \<Rightarrow>
          (case payload_authenticated p of
             None \<Rightarrow> (None, s\<lparr>authenticated := AuthUndefined, app_loading := False\<rparr>, w')
           | Some b \<Rightarrow>
               if b then app_fetchFiles e (s\<lparr>authenticated := AuthBool b\<rparr>) w'
               else (None, s\<lparr>authenticated := AuthBool b, app_loading := False\<rparr>, w'))
      | (Inl error, w') \<Rightarrow>
          (None, s\<lparr>authenticated := AuthBool False, app_loading := False\<rparr>, w'))"

definition handleLogin :: "env \<Rightarrow> event list \<Rightarrow> exn option \<times> event list" where
  "handleLogin e w =
     (case getAuthUrl e w of
        (Inr p, w') \<Rightarrow> (None, w' @ [Navigate (payload_auth_url p)])
      | (Inl error, w') \<Rightarrow>
          (None, w' @ [Alert ''Failed to initiate login. Please try again.'']))"

definition handleLogout ::
  "env \<Rightarrow> app_state \<Rightarrow> event list \<Rightarrow> exn option \<times> app_state \<times> event list" where
  "handleLogout e s w =
     (case logout e w of
        (Inr u, w') \<Rightarrow>
          (None, s\<lparr>authenticated := AuthBool False, app_files := Some []\<rparr>, w')
      | (Inl error, w') \<Rightarrow> (Some error, s, w'))"

section \<open>Reading a run\<close>

definition rejection :: "exn option \<times> 'a \<Rightarrow> exn option" where
  "rejection r = fst r"

definition state_after :: "exn option \<times> 's \<times> event list \<Rightarrow> 's" where
  "state_after r = fst (snd r)"

definition events_after :: "exn option \<times> 's \<times> event list \<Rightarrow> event list" where
  "events_after r = snd (snd r)"

text \<open>The network calls among the events, in order.\<close>

fun fetches :: "event list \<Rightarrow> request list" where
  "fetches [] = []"
| "fetches (Fetch r # w) = r # fetches w"
| "fetches (ev # w) = fetches w"

text \<open>The alert texts and the console errors among the events, in order.\<close>

fun alerts :: "event list \<Rightarrow> string list" where
  "alerts [] = []"
| "alerts (Alert m # w) = m # alerts w"
| "alerts (ev # w) = alerts w"

fun console_errors :: "event list \<Rightarrow> (string \<times> exn) list" where
  "console_errors [] = []"
| "console_errors (ConsoleError m x # w) = (m, x) # console_errors w"
| "console_errors (ev # w) = console_errors w"

text \<open>The two counters of \<open>handleImport\<close> when its loop ends.\<close>

definition successCount :: "env \<Rightarrow> picker_state \<Rightarrow> event list \<Rightarrow> nat" where
  "successCount e s w = fst (import_loop e (filesToImport s) 0 0 w)"

definition errorCount :: "env \<Rightarrow> picker_state \<Rightarrow> event list \<Rightarrow> nat" where
  "errorCount e s w = fst (snd (import_loop e (filesToImport s) 0 0 w))"

section \<open>Concrete scenarios\<close>

text \<open>The state of a freshly mounted picker: the initial values of its \<open>useState\<close> calls.\<close>

definition picker_initial :: picker_state where
  "picker_initial =
     \<lparr>files = [], loading = True, searchQuery = [], selectedFiles = {}, importing = False,
      nextPageToken = None, prevTokens = []\<rparr>"

definition file_a :: DriveFile where
  "file_a = \<lparr>d_id = ''a'', d_name = ''a.pdf'', d_mimeType = ''application/pdf'',
     d_size = Some ''1024'', d_modifiedTime = None, d_iconLink = None,
     d_thumbnailLink = None\<rparr>"

definition file_b :: DriveFile where
  "file_b = \<lparr>d_id = ''b'', d_name = ''b.txt'', d_mimeType = ''text/plain'',
     d_size = None, d_modifiedTime = None, d_iconLink = None, d_thumbnailLink = None\<rparr>"

text \<open>
  A Drive with three pages: the first page comes with the token \<open>A\<close>, the page fetched
  with \<open>A\<close> comes with the token \<open>B\<close>, the page fetched with \<open>B\<close> is the last.
\<close>

definition stored_a :: DataroomFile where
  "stored_a = \<lparr>r_id = 42, r_name = ''a.pdf'', r_mime_type = Some ''application/pdf'',
     r_size = Some 1024, r_google_drive_id = ''a'', r_created_at = ''2025-12-24T00:00:00''\<rparr>"

definition paged_env :: env where
  "paged_env =
     \<lparr>respond = (\<lambda>w r.
        if req_path r = ''/api/drive/import''
          then (if map_option file_id (req_body r) = Some ''b''
                then Response 409 (Some (ErrorPayload (Some ''File already exists'')))
                else Response 200 (Some (Imported True stored_a)))
        else if req_query r = [(''pageToken'', ''A'')]
          then Response 200 (Some (DriveList (Some [file_b]) (Some ''B'')))
        else if req_query r = [(''pageToken'', ''B'')]
          then Response 200 (Some (DriveList (Some []) None))
        else Response 200 (Some (DriveList (Some [file_a]) (Some ''A'')))),
      confirm_answer = (\<lambda>w m. True)\<rparr>"

text \<open>No connection: every \<open>fetch\<close> rejects.\<close>

definition down_env :: env where
  "down_env = \<lparr>respond = (\<lambda>w r. Rejected), confirm_answer = (\<lambda>w m. True)\<rparr>"

text \<open>A server that answers every request with a 500 and an error body.\<close>

definition failing_env :: env where
  "failing_env =
     \<lparr>respond = (\<lambda>w r. Response 500 (Some (ErrorPayload (Some ''boom'')))),
      confirm_answer = (\<lambda>w m. True)\<rparr>"

text \<open>A server that answers every request with a 200 and an empty object.\<close>

definition ok_env :: env where
  "ok_env =
     \<lparr>respond = (\<lambda>w r. Response 200 (Some (ErrorPayload None))),
      confirm_answer = (\<lambda>w m. True)\<rparr>"

text \<open>A gateway that answers every request with a 502 and a body that is not JSON.\<close>

definition gateway_env :: env where
  "gateway_env = \<lparr>respond = (\<lambda>w r. Response 502 None), confirm_answer = (\<lambda>w m. True)\<rparr>"

definition app_initial :: app_state where
  "app_initial =
     \<lparr>authenticated = AuthNull, app_files = Some [], app_loading = True,
      app_searchQuery = [], showPicker = False\<rparr>"

definition app_logged_in :: app_state where
  "app_logged_in =
     \<lparr>authenticated = AuthBool True, app_files = Some [stored_a], app_loading = False,
      app_searchQuery = [], showPicker = False\<rparr>"

definition folder_entry :: DriveFile where
  "folder_entry = \<lparr>d_id = ''f'', d_name = ''Reports'',
     d_mimeType = ''application/vnd.google-apps.folder'', d_size = None,
     d_modifiedTime = None, d_iconLink = None, d_thumbnailLink = None\<rparr>"

definition gdoc_entry :: DriveFile where
  "gdoc_entry = \<lparr>d_id = ''g'', d_name = ''Notes'',
     d_mimeType = ''application/vnd.google-apps.document'', d_size = None,
     d_modifiedTime = None, d_iconLink = None, d_thumbnailLink = None\<rparr>"

definition listing :: picker_state where
  "listing = picker_initial\<lparr>files := [folder_entry, gdoc_entry, file_a], loading := False\<rparr>"

definition unknown_size :: "size_json \<Rightarrow> string" where
  "unknown_size z = ''Unknown size''"

definition nav_mount :: "exn option \<times> picker_state \<times> event list" where
  "nav_mount = fetchFiles paged_env None None picker_initial []"

definition nav_next1 :: "exn option \<times> picker_state \<times> event list" where
  "nav_next1 = handleNextPage paged_env (state_after nav_mount) (events_after nav_mount)"

definition nav_next2 :: "exn option \<times> picker_state \<times> event list" where
  "nav_next2 = handleNextPage paged_env (state_after nav_next1) (events_after nav_next1)"

definition nav_prev :: "exn option \<times> picker_state \<times> event list" where
  "nav_prev = handlePrevPage paged_env (state_after nav_next2) (events_after nav_next2)"

definition both_selected :: picker_state where
  "both_selected =
     picker_initial\<lparr>files := [file_a, file_b], loading := False,
       selectedFiles := {''a'', ''b''}\<rparr>"

definition both_selected_rev :: picker_state where
  "both_selected_rev =
     picker_initial\<lparr>files := [file_b, file_a], loading := False,
       selectedFiles := {''a'', ''b''}\<rparr>"

definition only_a_selected :: picker_state where
  "only_a_selected =
     picker_initial\<lparr>files := [file_a, file_b], loading := False, selectedFiles := {''a''}\<rparr>"

text \<open>
  The user ticks \<open>a\<close> on the first page, goes to the next page and ticks \<open>b\<close> there.
\<close>

definition cross_page :: picker_state where
  "cross_page =
     toggleSelect ''b''
       (state_after (handleNextPage paged_env (toggleSelect ''a'' (state_after nav_mount))
          (events_after nav_mount)))"

definition app_searching :: app_state where
  "app_searching = app_logged_in\<lparr>app_searchQuery := ''q''\<rparr>"

section \<open>Network calls of the picker\<close>

lemma fetches_append: "fetches (a @ b) = fetches a @ fetches b"
  by (induction a rule: fetches.induct) simp_all

lemma fetchFiles_fetches:
  "fetches (events_after (fetchFiles e t q s w)) = fetches w @ [listDriveFiles_request t q]"
  by (simp add: fetchFiles_def listDriveFiles_def fetch_def events_after_def fetches_append
      split: outcome.split sum.split prod.split)

lemma fetchFiles_prevTokens:
  "prevTokens (state_after (fetchFiles e t q s w)) = prevTokens s"
  by (simp add: fetchFiles_def state_after_def split: prod.split sum.split)

lemma fetchFiles_selectedFiles:
  "selectedFiles (state_after (fetchFiles e t q s w)) = selectedFiles s"
  by (simp add: fetchFiles_def state_after_def split: prod.split sum.split)

lemma fetchFiles_searchQuery:
  "searchQuery (state_after (fetchFiles e t q s w)) = searchQuery s"
  by (simp add: fetchFiles_def state_after_def split: prod.split sum.split)

section \<open>Pagination\<close>

text \<open>
  C6. After one "next" navigation, "previous" refetches with no page token, whatever the
  token the server had provided: the two navigations issue the request with that token
  and then the request of the first page, which carries no \<open>pageToken\<close> parameter.
\<close>

theorem prev_after_next_fetches_first_page:
  assumes "nextPageToken s = Some t" and "t \<noteq> []"
  shows "fetches (events_after (handlePrevPage e (state_after (handleNextPage e s w))
                    (events_after (handleNextPage e s w))))
         = fetches w @ [listDriveFiles_request (Some t) (Some (searchQuery s)),
                        listDriveFiles_request None (Some (searchQuery s))]
       \<and> req_query (listDriveFiles_request None (Some (searchQuery s)))
         = (if searchQuery s = [] then [] else [(''query'', searchQuery s)])"
  using assms
  by (simp add: handlePrevPage_def handleNextPage_def fetchFiles_fetches fetchFiles_prevTokens
      fetchFiles_searchQuery Let_def listDriveFiles_request_def plain_request_def param_def)

theorem prev_after_next_fetches_first_page_witness:
  "nextPageToken (state_after nav_mount) = Some ''A'' \<and> ''A'' \<noteq> []
   \<and> fetches (events_after (handlePrevPage paged_env (state_after nav_next1)
                 (events_after nav_next1)))
     = [listDriveFiles_request None None,
        listDriveFiles_request (Some ''A'') (Some []),
        listDriveFiles_request None (Some [])]"
proof -
  have tok: "nextPageToken (state_after nav_mount) = Some ''A''"
    by (simp add: nav_mount_def fetchFiles_def listDriveFiles_def fetch_def paged_env_def
        state_after_def res_ok_def res_json_def listDriveFiles_request_def plain_request_def
        param_def)
  have q: "searchQuery (state_after nav_mount) = []"
    by (simp add: nav_mount_def fetchFiles_searchQuery picker_initial_def)
  have w: "fetches (events_after nav_mount) = [listDriveFiles_request None None]"
    by (simp add: nav_mount_def fetchFiles_fetches)
  show ?thesis
    using prev_after_next_fetches_first_page
      [of "state_after nav_mount" "''A''" paged_env "events_after nav_mount"] tok q w
    by (simp add: nav_next1_def)
qed

text \<open>
  C8. A search empties the pagination history and issues one request, that of
  \<open>listDriveFiles\<close> called with no page token and the search text: it has no \<open>pageToken\<close>
  parameter, and its \<open>query\<close> parameter is the search text (left out when empty).
\<close>

theorem search_resets_pagination:
  "prevTokens (state_after (handleSearch e s w)) = []
   \<and> fetches (events_after (handleSearch e s w))
       = fetches w @ [listDriveFiles_request None (Some (searchQuery s))]
   \<and> req_query (listDriveFiles_request None (Some (searchQuery s)))
       = (if searchQuery s = [] then [] else [(''query'', searchQuery s)])"
  by (simp add: handleSearch_def fetchFiles_fetches fetchFiles_prevTokens
      listDriveFiles_request_def plain_request_def param_def)

lemmas drive_fetch_defs = fetchFiles_def listDriveFiles_def fetch_def res_ok_def res_json_def
  listDriveFiles_request_def plain_request_def param_def API_BASE_def

lemma nav_mount_run:
  "nav_mount =
     (None,
      \<lparr>files = [file_a], loading = False, searchQuery = [], selectedFiles = {},
       importing = False, nextPageToken = Some ''A'', prevTokens = []\<rparr>,
      [Fetch (listDriveFiles_request None None)])"
  by (simp add: nav_mount_def paged_env_def picker_initial_def drive_fetch_defs)

lemma nav_next1_run:
  "nav_next1 =
     (None,
      \<lparr>files = [file_b], loading = False, searchQuery = [], selectedFiles = {},
       importing = False, nextPageToken = Some ''B'', prevTokens = [[]]\<rparr>,
      [Fetch (listDriveFiles_request None None),
       Fetch (listDriveFiles_request (Some ''A'') (Some []))])"
  by (simp add: nav_next1_def nav_mount_run state_after_def events_after_def
      handleNextPage_def paged_env_def drive_fetch_defs)

lemma nav_next2_run:
  "nav_next2 =
     (None,
      \<lparr>files = [], loading = False, searchQuery = [], selectedFiles = {},
       importing = False, nextPageToken = None, prevTokens = [[], []]\<rparr>,
      [Fetch (listDriveFiles_request None None),
       Fetch (listDriveFiles_request (Some ''A'') (Some [])),
       Fetch (listDriveFiles_request (Some ''B'') (Some []))])"
  by (simp add: nav_next2_def nav_next1_run state_after_def events_after_def
      handleNextPage_def paged_env_def drive_fetch_defs)

text \<open>
  C1. The claim has "previous" after two "next" navigations return to the page fetched
  with the first server-provided token. On a Drive of three pages with the tokens \<open>A\<close>
  and \<open>B\<close>, the code pushes the empty string at both "next" navigations, and
  "previous" then fetches with no page token: the first page is shown again, with one
  entry still on the history stack, and no request with the token \<open>A\<close> is made.
\<close>

theorem next_next_prev_refetches_first_page:
  "prevTokens (state_after nav_next2) = ['''', '''']
   \<and> nav_prev =
     (None,
      \<lparr>files = [file_a], loading = False, searchQuery = [], selectedFiles = {},
       importing = False, nextPageToken = Some ''A'', prevTokens = ['''']\<rparr>,
      [Fetch (listDriveFiles_request None None),
       Fetch (listDriveFiles_request (Some ''A'') (Some [])),
       Fetch (listDriveFiles_request (Some ''B'') (Some [])),
       Fetch (listDriveFiles_request None (Some []))])
   \<and> listDriveFiles_request None (Some []) \<noteq> listDriveFiles_request (Some ''A'') (Some [])"
  by (simp add: nav_prev_def nav_next2_run state_after_def events_after_def
      handlePrevPage_def paged_env_def drive_fetch_defs)

section \<open>Logout\<close>

text \<open>
  C7. Logout issues the POST to the logout endpoint and, whatever the status and the body
  of the response, then sets \<open>authenticated\<close> to \<open>false\<close> and the file list to the empty
  list; it makes no other call and raises nothing.
\<close>

theorem logout_resets_state:
  assumes "respond e w (plain_request POST ''/api/auth/logout'' []) = Response st b"
  shows "handleLogout e s w =
           (None, s\<lparr>authenticated := AuthBool False, app_files := Some []\<rparr>,
            w @ [Fetch (plain_request POST ''/api/auth/logout'' [])])"
  using assms by (simp add: handleLogout_def logout_def fetch_def API_BASE_def)

theorem logout_resets_state_witness:
  "respond failing_env [] (plain_request POST ''/api/auth/logout'' [])
     = Response 500 (Some (ErrorPayload (Some ''boom'')))
   \<and> handleLogout failing_env app_logged_in [] =
       (None,
        \<lparr>authenticated = AuthBool False, app_files = Some [], app_loading = False,
         app_searchQuery = [], showPicker = False\<rparr>,
        [Fetch (plain_request POST ''/api/auth/logout'' [])])"
  using logout_resets_state [of failing_env "[]" 500 "Some (ErrorPayload (Some ''boom''))"
      app_logged_in]
  by (simp add: failing_env_def app_logged_in_def)

text \<open>When the call itself fails, the state is left as it was and the error goes on.\<close>

lemma logout_rejected:
  assumes "respond e w (plain_request POST ''/api/auth/logout'' []) = Rejected"
  shows "handleLogout e s w =
           (Some NetworkFailure, s, w @ [Fetch (plain_request POST ''/api/auth/logout'' [])])"
  using assms by (simp add: handleLogout_def logout_def fetch_def API_BASE_def)

section \<open>The rendered file list\<close>

text \<open>
  C9. The rendered list has a row for exactly the entries whose MIME type is not the
  folder type, and a row of an entry whose MIME type starts with
  \<open>application/vnd.google-apps.\<close> is labelled "Google Doc"; the other rows carry the
  formatted size.
\<close>

theorem folders_hidden_google_docs_labelled:
  "set (shown_files s)
     = {f \<in> set (files s). d_mimeType f \<noteq> ''application/vnd.google-apps.folder''}
   \<and> (\<not> loading s \<and> files s \<noteq> [] \<longrightarrow>
        render_list formatFileSize s
          = FileRows (map (render_row formatFileSize s) (shown_files s)))
   \<and> (\<forall>f \<in> set (shown_files s).
        row_label (render_row formatFileSize s f)
          = (if prefix ''application/vnd.google-apps.'' (d_mimeType f) then ''Google Doc''
             else formatFileSize (size_arg (d_size f))))"
  by (auto simp add: shown_files_def isFolder_def render_list_def render_row_def
      size_line_def isGoogleDoc_def)

theorem folders_hidden_google_docs_labelled_witness:
  "\<not> loading listing \<and> files listing \<noteq> []
   \<and> shown_files listing = [gdoc_entry, file_a]
   \<and> render_list unknown_size listing
       = FileRows [\<lparr>row_key = ''g'', row_checked = False, row_name = ''Notes'',
                     row_label = ''Google Doc''\<rparr>,
                   \<lparr>row_key = ''a'', row_checked = False, row_name = ''a.pdf'',
                     row_label = ''Unknown size''\<rparr>]"
proof -
  have shown: "shown_files listing = [gdoc_entry, file_a]"
    by (simp add: shown_files_def listing_def isFolder_def folder_entry_def gdoc_entry_def
        file_a_def)
  have rows: "map (render_row unknown_size listing) [gdoc_entry, file_a]
       = [\<lparr>row_key = ''g'', row_checked = False, row_name = ''Notes'',
            row_label = ''Google Doc''\<rparr>,
          \<lparr>row_key = ''a'', row_checked = False, row_name = ''a.pdf'',
            row_label = ''Unknown size''\<rparr>]"
    by (simp add: render_row_def size_line_def isGoogleDoc_def gdoc_entry_def file_a_def
        unknown_size_def listing_def picker_initial_def)
  have pre: "\<not> loading listing \<and> files listing \<noteq> []"
    by (simp add: listing_def)
  show ?thesis
    using folders_hidden_google_docs_labelled [of listing unknown_size] shown rows pre
    by simp
qed

section \<open>Deleting a stored file\<close>

text \<open>
  C10. Once the user has confirmed, deleting the file with id 42 issues one request,
  DELETE \<open>/api/files/42\<close>; \<open>deleteFile\<close> throws on a status outside 200..299; and the
  refresh callback is called, once, exactly when a response with a status in 200..299
  came back: otherwise the alert is shown instead.
\<close>

theorem delete_42_calls_refresh_on_2xx:
  assumes "confirm_answer e w (delete_prompt file)" and "r_id file = 42"
  shows "handleDelete e file w =
     (None,
      w @ [Confirm (delete_prompt file),
           Fetch \<lparr>req_method = DELETE, req_path = ''/api/files/42'', req_query = [],
                  req_headers = [], req_body = None\<rparr>,
           (case respond e (w @ [Confirm (delete_prompt file)]) (deleteFile_request 42) of
              Rejected \<Rightarrow> Alert ''Failed to delete file. Please try again.''
            | Response st b \<Rightarrow>
                if 200 \<le> st \<and> st \<le> 299 then OnDelete
                else Alert ''Failed to delete file. Please try again.'')])
   \<and> fst (deleteFile e 42 (w @ [Confirm (delete_prompt file)])) =
       (case respond e (w @ [Confirm (delete_prompt file)]) (deleteFile_request 42) of
          Rejected \<Rightarrow> Inl NetworkFailure
        | Response st b \<Rightarrow>
            if 200 \<le> st \<and> st \<le> 299 then Inr () else Inl (Error ''Failed to delete file''))"
  using assms
  by (simp add: handleDelete_def deleteFile_def fetch_def deleteFile_request_def
      plain_request_def API_BASE_def show_int_def digit_def res_ok_def split: outcome.split)

theorem delete_42_calls_refresh_on_2xx_witness:
  "confirm_answer ok_env [] (delete_prompt stored_a) \<and> r_id stored_a = 42
   \<and> handleDelete ok_env stored_a [] =
       (None,
        [Confirm (delete_prompt stored_a),
         Fetch \<lparr>req_method = DELETE, req_path = ''/api/files/42'', req_query = [],
                req_headers = [], req_body = None\<rparr>,
         OnDelete])
   \<and> handleDelete failing_env stored_a [] =
       (None,
        [Confirm (delete_prompt stored_a),
         Fetch \<lparr>req_method = DELETE, req_path = ''/api/files/42'', req_query = [],
                req_headers = [], req_body = None\<rparr>,
         Alert ''Failed to delete file. Please try again.''])"
  using delete_42_calls_refresh_on_2xx [of ok_env "[]" stored_a]
    delete_42_calls_refresh_on_2xx [of failing_env "[]" stored_a]
  by (simp add: ok_env_def failing_env_def stored_a_def)

section \<open>Batch import\<close>

lemma alerts_append: "alerts (a @ b) = alerts a @ alerts b"
  by (induction a rule: alerts.induct) simp_all

lemma console_errors_append: "console_errors (a @ b) = console_errors a @ console_errors b"
  by (induction a rule: console_errors.induct) simp_all

lemma importFile_events: "snd (importFile e f w) = w @ [Fetch (importFile_request f)]"
  by (simp add: importFile_def fetch_def split: outcome.split sum.split)

lemma import_loop_fetches:
  "fetches (snd (snd (import_loop e fs sc ec w))) = fetches w @ map importFile_request fs"
proof (induction fs arbitrary: sc ec w)
  case Nil
  show ?case by simp
next
  case (Cons f fs)
  obtain r w' where step: "importFile e f w = (r, w')"
    by (cases "importFile e f w")
  with importFile_events [of e f w] have w': "w' = w @ [Fetch (importFile_request f)]"
    by simp
  show ?case
    by (cases r) (simp_all add: step w' Cons.IH fetches_append)
qed

lemma import_loop_counts:
  "fst (import_loop e fs sc ec w) + fst (snd (import_loop e fs sc ec w))
     = sc + ec + length fs"
proof (induction fs arbitrary: sc ec w)
  case Nil
  show ?case by simp
next
  case (Cons f fs)
  obtain r w' where step: "importFile e f w = (r, w')"
    by (cases "importFile e f w")
  show ?case
    by (cases r) (simp_all add: step Cons.IH)
qed

lemma import_loop_alerts: "alerts (snd (snd (import_loop e fs sc ec w))) = alerts w"
proof (induction fs arbitrary: sc ec w)
  case Nil
  show ?case by simp
next
  case (Cons f fs)
  obtain r w' where step: "importFile e f w = (r, w')"
    by (cases "importFile e f w")
  with importFile_events [of e f w] have w': "w' = w @ [Fetch (importFile_request f)]"
    by simp
  show ?case
    by (cases r) (simp_all add: step w' Cons.IH alerts_append)
qed

lemma import_loop_errors_logged:
  "length (console_errors (snd (snd (import_loop e fs sc ec w)))) + ec
     = length (console_errors w) + fst (snd (import_loop e fs sc ec w))"
proof (induction fs arbitrary: sc ec w)
  case Nil
  show ?case by simp
next
  case (Cons f fs)
  obtain r w' where step: "importFile e f w = (r, w')"
    by (cases "importFile e f w")
  with importFile_events [of e f w] have w': "w' = w @ [Fetch (importFile_request f)]"
    by simp
  show ?case
  proof (cases r)
    case (Inl x)
    with Cons.IH [of sc "ec + 1" "w' @ [ConsoleError (''Failed to import '' @ d_name f @ '':'') x]"]
    show ?thesis by (simp add: step w' console_errors_append)
  next
    case (Inr p)
    with Cons.IH [of "sc + 1" ec w'] show ?thesis
      by (simp add: step w' console_errors_append)
  qed
qed

lemma handleImport_events:
  "events_after (handleImport e s w) =
     (if filesToImport s = [] then w
      else snd (snd (import_loop e (filesToImport s) 0 0 w))
        @ (if errorCount e s w > 0
           then [Alert (import_summary (successCount e s w) (errorCount e s w))] else [])
        @ [OnImport, OnClose])"
  by (simp add: handleImport_def events_after_def successCount_def errorCount_def
      split: prod.split)

lemma handleImport_fetches:
  "fetches (events_after (handleImport e s w))
     = fetches w @ map importFile_request (filesToImport s)"
  by (simp add: handleImport_events fetches_append import_loop_fetches)

lemma handleImport_alerts:
  "alerts (events_after (handleImport e s w))
     = alerts w @ (if errorCount e s w > 0
                   then [import_summary (successCount e s w) (errorCount e s w)] else [])"
  by (simp add: handleImport_events alerts_append import_loop_alerts errorCount_def)

lemma handleImport_console_errors:
  "length (console_errors (events_after (handleImport e s w)))
     = length (console_errors w) + errorCount e s w"
  using import_loop_errors_logged [of e "filesToImport s" 0 0 w]
  by (simp add: handleImport_events console_errors_append errorCount_def)

lemma import_counts: "successCount e s w + errorCount e s w = length (filesToImport s)"
  using import_loop_counts [of e "filesToImport s" 0 0 w]
  by (simp add: successCount_def errorCount_def)

lemma import_summary_1_1:
  "import_summary (Suc 0) (Suc 0) = ''Imported 1 file(s). 1 file(s) failed or already exist.''"
  by (simp add: import_summary_def digit_def)

lemma handleImport_ok_then_failed:
  assumes "filesToImport s = [f1, f2]"
    and "fst (importFile e f1 w) = Inr p"
    and "fst (importFile e f2 (w @ [Fetch (importFile_request f1)])) = Inl x"
  shows "events_after (handleImport e s w) =
     w @ [Fetch (importFile_request f1), Fetch (importFile_request f2),
          ConsoleError (''Failed to import '' @ d_name f2 @ '':'') x,
          Alert ''Imported 1 file(s). 1 file(s) failed or already exist.'',
          OnImport, OnClose]"
proof -
  have one: "importFile e f1 w = (Inr p, w @ [Fetch (importFile_request f1)])"
    using assms(2) importFile_events [of e f1 w] by (cases "importFile e f1 w") simp
  have two: "importFile e f2 (w @ [Fetch (importFile_request f1)])
      = (Inl x, w @ [Fetch (importFile_request f1), Fetch (importFile_request f2)])"
    using assms(3) importFile_events [of e f2 "w @ [Fetch (importFile_request f1)]"]
    by (cases "importFile e f2 (w @ [Fetch (importFile_request f1)])") simp
  show ?thesis
    by (simp add: handleImport_def events_after_def assms(1) one two import_summary_1_1)
qed

lemma handleImport_failed_then_ok:
  assumes "filesToImport s = [f1, f2]"
    and "fst (importFile e f1 w) = Inl x"
    and "fst (importFile e f2 (w @ [Fetch (importFile_request f1),
            ConsoleError (''Failed to import '' @ d_name f1 @ '':'') x])) = Inr p"
  shows "events_after (handleImport e s w) =
     w @ [Fetch (importFile_request f1),
          ConsoleError (''Failed to import '' @ d_name f1 @ '':'') x,
          Fetch (importFile_request f2),
          Alert ''Imported 1 file(s). 1 file(s) failed or already exist.'',
          OnImport, OnClose]"
proof -
  let ?w1 = "w @ [Fetch (importFile_request f1),
            ConsoleError (''Failed to import '' @ d_name f1 @ '':'') x]"
  have one: "importFile e f1 w = (Inl x, w @ [Fetch (importFile_request f1)])"
    using assms(2) importFile_events [of e f1 w] by (cases "importFile e f1 w") simp
  have two: "importFile e f2 ?w1 = (Inr p, ?w1 @ [Fetch (importFile_request f2)])"
    using assms(3) importFile_events [of e f2 ?w1]
    by (cases "importFile e f2 ?w1") simp
  show ?thesis
    using two by (simp add: handleImport_def events_after_def assms(1) one import_summary_1_1)
qed

text \<open>
  C4 (as amended). The batch import calls \<open>importFile\<close> once for each file to import, in
  order, whatever the outcome of the calls before, and makes no other request (nothing
  is undone). Every file counts as a success or as an error, each error is logged to
  the console, and one alert with the two counts is shown exactly when there was an
  error: none when every import succeeded. With two files to import of which one fails,
  in either order, the alert reads "Imported 1 file(s). 1 file(s) failed or already
  exist.".
\<close>

theorem import_batch_attempts_all_alerts_on_error:
  "fetches (events_after (handleImport e s w))
     = fetches w @ map importFile_request (filesToImport s)
   \<and> successCount e s w + errorCount e s w = length (filesToImport s)
   \<and> length (console_errors (events_after (handleImport e s w)))
       = length (console_errors w) + errorCount e s w
   \<and> alerts (events_after (handleImport e s w))
       = alerts w @ (if errorCount e s w > 0
                     then [import_summary (successCount e s w) (errorCount e s w)] else [])
   \<and> rejection (handleImport e s w) = None
   \<and> (filesToImport s = [f1, f2] \<and> fst (importFile e f1 w) = Inr p
        \<and> fst (importFile e f2 (w @ [Fetch (importFile_request f1)])) = Inl x
      \<longrightarrow> events_after (handleImport e s w) =
           w @ [Fetch (importFile_request f1), Fetch (importFile_request f2),
                ConsoleError (''Failed to import '' @ d_name f2 @ '':'') x,
                Alert ''Imported 1 file(s). 1 file(s) failed or already exist.'',
                OnImport, OnClose])
   \<and> (filesToImport s = [f1, f2] \<and> fst (importFile e f1 w) = Inl x
        \<and> fst (importFile e f2 (w @ [Fetch (importFile_request f1),
              ConsoleError (''Failed to import '' @ d_name f1 @ '':'') x])) = Inr p
      \<longrightarrow> events_after (handleImport e s w) =
           w @ [Fetch (importFile_request f1),
                ConsoleError (''Failed to import '' @ d_name f1 @ '':'') x,
                Fetch (importFile_request f2),
                Alert ''Imported 1 file(s). 1 file(s) failed or already exist.'',
                OnImport, OnClose])"
proof -
  have "rejection (handleImport e s w) = None"
    by (simp add: handleImport_def rejection_def split: prod.split)
  then show ?thesis
    using handleImport_fetches [of e s w] import_counts [of e s w]
      handleImport_console_errors [of e s w] handleImport_alerts [of e s w]
      handleImport_ok_then_failed [of s f1 f2 e w p x]
      handleImport_failed_then_ok [of s f1 f2 e w x p]
    by blast
qed

lemmas import_eval_defs = importFile_def importFile_request_def fetch_def res_ok_def
  res_json_def import_error_message_def size_arg_def API_BASE_def paged_env_def
  file_a_def file_b_def

lemma both_selected_batch: "filesToImport both_selected = [file_a, file_b]"
  by (simp add: filesToImport_def both_selected_def picker_initial_def file_a_def file_b_def)

lemma both_selected_rev_batch: "filesToImport both_selected_rev = [file_b, file_a]"
  by (simp add: filesToImport_def both_selected_rev_def picker_initial_def file_a_def
      file_b_def)

lemma import_a_ok: "fst (importFile paged_env file_a w) = Inr (Imported True stored_a)"
  by (simp add: import_eval_defs)

lemma import_b_fails: "fst (importFile paged_env file_b w) = Inl (Error ''File already exists'')"
  by (simp add: import_eval_defs)

theorem import_batch_attempts_all_alerts_on_error_witness:
  "filesToImport both_selected = [file_a, file_b]
   \<and> fst (importFile paged_env file_a []) = Inr (Imported True stored_a)
   \<and> fst (importFile paged_env file_b [Fetch (importFile_request file_a)])
       = Inl (Error ''File already exists'')
   \<and> events_after (handleImport paged_env both_selected []) =
       [Fetch (importFile_request file_a), Fetch (importFile_request file_b),
        ConsoleError ''Failed to import b.txt:'' (Error ''File already exists''),
        Alert ''Imported 1 file(s). 1 file(s) failed or already exist.'',
        OnImport, OnClose]
   \<and> filesToImport both_selected_rev = [file_b, file_a]
   \<and> events_after (handleImport paged_env both_selected_rev []) =
       [Fetch (importFile_request file_b),
        ConsoleError ''Failed to import b.txt:'' (Error ''File already exists''),
        Fetch (importFile_request file_a),
        Alert ''Imported 1 file(s). 1 file(s) failed or already exist.'',
        OnImport, OnClose]"
proof -
  have name_b: "d_name file_b = ''b.txt''"
    by (simp add: file_b_def)
  show ?thesis
    using import_batch_attempts_all_alerts_on_error
        [of paged_env both_selected "[]" file_a file_b "Imported True stored_a"
          "Error ''File already exists''"]
      import_batch_attempts_all_alerts_on_error
        [of paged_env both_selected_rev "[]" file_b file_a "Imported True stored_a"
          "Error ''File already exists''"]
      both_selected_batch both_selected_rev_batch import_a_ok import_b_fails name_b
    by simp
qed

text \<open>
  The claim as stated fails when nothing goes wrong: with the one selected file imported
  successfully, the events are the request and the two callbacks, and no alert.
\<close>

theorem import_all_ok_no_alert:
  "events_after (handleImport paged_env only_a_selected [])
     = [Fetch (importFile_request file_a), OnImport, OnClose]
   \<and> alerts (events_after (handleImport paged_env only_a_selected [])) = []"
proof -
  have batch: "filesToImport only_a_selected = [file_a]"
    by (simp add: filesToImport_def only_a_selected_def picker_initial_def file_a_def
        file_b_def)
  have step: "importFile paged_env file_a [] =
      (Inr (Imported True stored_a), [Fetch (importFile_request file_a)])"
    using import_a_ok [of "[]"] importFile_events [of paged_env file_a "[]"]
    by (cases "importFile paged_env file_a []") simp
  show ?thesis
    by (simp add: handleImport_def events_after_def batch step)
qed

text \<open>
  C5. The requests of an import are those of the files of the page on display whose id is
  selected, in the page's order, and the two counters add up to their number; a selected
  id that is not on the page occurs in no request. The navigation handlers and the
  search leave the selection as it is.
\<close>

theorem import_batch_is_selection_on_page:
  "fetches (events_after (handleImport e s w))
     = fetches w
       @ map importFile_request (filter (\<lambda>f. d_id f \<in> selectedFiles s) (files s))
   \<and> successCount e s w + errorCount e s w
       = length (filter (\<lambda>f. d_id f \<in> selectedFiles s) (files s))
   \<and> (\<forall>x \<in> selectedFiles s. x \<notin> d_id ` set (files s) \<longrightarrow>
         Some x \<notin> set (map (\<lambda>r. map_option file_id (req_body r))
                         (map importFile_request (filesToImport s))))
   \<and> selectedFiles (state_after (handleNextPage e s w)) = selectedFiles s
   \<and> selectedFiles (state_after (handlePrevPage e s w)) = selectedFiles s
   \<and> selectedFiles (state_after (handleSearch e s w)) = selectedFiles s"
proof -
  have excluded: "\<forall>x \<in> selectedFiles s. x \<notin> d_id ` set (files s) \<longrightarrow>
         Some x \<notin> set (map (\<lambda>r. map_option file_id (req_body r))
                         (map importFile_request (filesToImport s)))"
    by (auto simp add: filesToImport_def importFile_request_def)
  have same: "state_after (None, s, w) = s"
    by (simp add: state_after_def)
  have nxt: "selectedFiles (state_after (handleNextPage e s w)) = selectedFiles s"
    by (simp add: handleNextPage_def fetchFiles_selectedFiles same split: option.split)
  have prv: "selectedFiles (state_after (handlePrevPage e s w)) = selectedFiles s"
    by (simp add: handlePrevPage_def fetchFiles_selectedFiles same Let_def)
  have srch: "selectedFiles (state_after (handleSearch e s w)) = selectedFiles s"
    by (simp add: handleSearch_def fetchFiles_selectedFiles)
  show ?thesis
    using handleImport_fetches [of e s w] import_counts [of e s w] excluded nxt prv srch
    by (simp add: filesToImport_def)
qed

lemma cross_page_state:
  "cross_page =
     \<lparr>files = [file_b], loading = False, searchQuery = [], selectedFiles = {''b'', ''a''},
      importing = False, nextPageToken = Some ''B'', prevTokens = [[]]\<rparr>"
  by (simp add: cross_page_def nav_mount_run state_after_def events_after_def
      toggleSelect_def handleNextPage_def paged_env_def drive_fetch_defs)

theorem import_batch_is_selection_on_page_witness:
  "''a'' \<in> selectedFiles cross_page \<and> ''a'' \<notin> d_id ` set (files cross_page)
   \<and> fetches (events_after (handleImport paged_env cross_page []))
       = [importFile_request file_b]
   \<and> successCount paged_env cross_page [] + errorCount paged_env cross_page [] = 1
   \<and> alerts (events_after (handleImport paged_env cross_page []))
       = [''Imported 0 file(s). 1 file(s) failed or already exist.'']"
proof -
  have batch: "filter (\<lambda>f. d_id f \<in> selectedFiles cross_page) (files cross_page) = [file_b]"
    by (simp add: cross_page_state file_b_def)
  have sel: "''a'' \<in> selectedFiles cross_page \<and> ''a'' \<notin> d_id ` set (files cross_page)"
    by (simp add: cross_page_state file_b_def)
  have step: "importFile paged_env file_b [] =
      (Inl (Error ''File already exists''), [Fetch (importFile_request file_b)])"
    using import_b_fails [of "[]"] importFile_events [of paged_env file_b "[]"]
    by (cases "importFile paged_env file_b []") simp
  have al: "alerts (events_after (handleImport paged_env cross_page []))
       = [''Imported 0 file(s). 1 file(s) failed or already exist.'']"
    by (simp add: handleImport_def events_after_def filesToImport_def batch step
        import_summary_def digit_def)
  show ?thesis
    using import_batch_is_selection_on_page [of paged_env cross_page "[]"] batch sel al
    by simp
qed

section \<open>The API client's contract\<close>

lemmas api_client_defs = getAuthStatus_def getAuthUrl_def logout_def listDriveFiles_def
  importFile_def listFiles_def searchFiles_def deleteFile_def fetch_def res_ok_def
  res_json_def API_BASE_def

text \<open>
  C2 (as amended). Every function of the client that calls \<open>fetch\<close> calls it exactly
  once. On a status in 200..299 with a JSON body the body is returned (\<open>logout\<close> and
  \<open>deleteFile\<close> return nothing). On another status \<open>listDriveFiles\<close> and \<open>deleteFile\<close>
  throw an error with a fixed message; \<open>importFile\<close> throws too: when the body is
  JSON, an error whose message is the \<open>error\<close> text of the body when it has a non-empty
  one and a fixed message otherwise, and when the body is not JSON, the parse error of
  \<open>res.json()\<close>; \<open>logout\<close> returns normally whatever the status.
\<close>

theorem api_client_contract:
  "snd (getAuthStatus e w) = w @ [Fetch (plain_request GET ''/api/auth/status'' [])]
   \<and> snd (getAuthUrl e w) = w @ [Fetch (plain_request GET ''/api/auth/login'' [])]
   \<and> snd (logout e w) = w @ [Fetch (plain_request POST ''/api/auth/logout'' [])]
   \<and> snd (listDriveFiles e t q w) = w @ [Fetch (listDriveFiles_request t q)]
   \<and> snd (importFile e f w) = w @ [Fetch (importFile_request f)]
   \<and> snd (listFiles e w) = w @ [Fetch (plain_request GET ''/api/files'' [])]
   \<and> snd (searchFiles e query w)
       = w @ [Fetch (plain_request GET ''/api/files/search'' [(''q'', query)])]
   \<and> snd (deleteFile e fileId w) = w @ [Fetch (deleteFile_request fileId)]
   \<and> (respond e w (plain_request GET ''/api/auth/status'' []) = Response st (Some p)
        \<and> 200 \<le> st \<and> st \<le> 299 \<longrightarrow> fst (getAuthStatus e w) = Inr p)
   \<and> (respond e w (plain_request GET ''/api/auth/login'' []) = Response st (Some p)
        \<and> 200 \<le> st \<and> st \<le> 299 \<longrightarrow> fst (getAuthUrl e w) = Inr p)
   \<and> (respond e w (listDriveFiles_request t q) = Response st (Some p)
        \<and> 200 \<le> st \<and> st \<le> 299 \<longrightarrow> fst (listDriveFiles e t q w) = Inr p)
   \<and> (respond e w (importFile_request f) = Response st (Some p)
        \<and> 200 \<le> st \<and> st \<le> 299 \<longrightarrow> fst (importFile e f w) = Inr p)
   \<and> (respond e w (plain_request GET ''/api/files'' []) = Response st (Some p)
        \<and> 200 \<le> st \<and> st \<le> 299 \<longrightarrow> fst (listFiles e w) = Inr p)
   \<and> (respond e w (plain_request GET ''/api/files/search'' [(''q'', query)])
          = Response st (Some p)
        \<and> 200 \<le> st \<and> st \<le> 299 \<longrightarrow> fst (searchFiles e query w) = Inr p)
   \<and> (respond e w (deleteFile_request fileId) = Response st b
        \<and> 200 \<le> st \<and> st \<le> 299 \<longrightarrow> fst (deleteFile e fileId w) = Inr ())
   \<and> (respond e w (plain_request POST ''/api/auth/logout'' []) = Response st b
        \<longrightarrow> fst (logout e w) = Inr ())
   \<and> (respond e w (listDriveFiles_request t q) = Response st b
        \<and> \<not> (200 \<le> st \<and> st \<le> 299)
        \<longrightarrow> fst (listDriveFiles e t q w) = Inl (Error ''Failed to fetch drive files''))
   \<and> (respond e w (deleteFile_request fileId) = Response st b
        \<and> \<not> (200 \<le> st \<and> st \<le> 299)
        \<longrightarrow> fst (deleteFile e fileId w) = Inl (Error ''Failed to delete file''))
   \<and> (respond e w (importFile_request f) = Response st (Some p)
        \<and> \<not> (200 \<le> st \<and> st \<le> 299)
        \<longrightarrow> fst (importFile e f w) =
             Inl (Error (case payload_error p of
                           None \<Rightarrow> ''Failed to import file''
                         | Some m \<Rightarrow> if m = [] then ''Failed to import file'' else m)))
   \<and> (respond e w (importFile_request f) = Response st None
        \<and> \<not> (200 \<le> st \<and> st \<le> 299)
        \<longrightarrow> fst (importFile e f w) = Inl JsonSyntaxError)"
proof -
  have calls:
    "snd (getAuthStatus e w) = w @ [Fetch (plain_request GET ''/api/auth/status'' [])]"
    "snd (getAuthUrl e w) = w @ [Fetch (plain_request GET ''/api/auth/login'' [])]"
    "snd (logout e w) = w @ [Fetch (plain_request POST ''/api/auth/logout'' [])]"
    "snd (listDriveFiles e t q w) = w @ [Fetch (listDriveFiles_request t q)]"
    "snd (importFile e f w) = w @ [Fetch (importFile_request f)]"
    "snd (listFiles e w) = w @ [Fetch (plain_request GET ''/api/files'' [])]"
    "snd (searchFiles e query w)
       = w @ [Fetch (plain_request GET ''/api/files/search'' [(''q'', query)])]"
    "snd (deleteFile e fileId w) = w @ [Fetch (deleteFile_request fileId)]"
    by (simp_all add: api_client_defs split: outcome.split sum.split)
  have ok:
    "respond e w (plain_request GET ''/api/auth/status'' []) = Response st (Some p)
        \<and> 200 \<le> st \<and> st \<le> 299 \<longrightarrow> fst (getAuthStatus e w) = Inr p"
    "respond e w (plain_request GET ''/api/auth/login'' []) = Response st (Some p)
        \<and> 200 \<le> st \<and> st \<le> 299 \<longrightarrow> fst (getAuthUrl e w) = Inr p"
    "respond e w (listDriveFiles_request t q) = Response st (Some p)
        \<and> 200 \<le> st \<and> st \<le> 299 \<longrightarrow> fst (listDriveFiles e t q w) = Inr p"
    "respond e w (importFile_request f) = Response st (Some p)
        \<and> 200 \<le> st \<and> st \<le> 299 \<longrightarrow> fst (importFile e f w) = Inr p"
    "respond e w (plain_request GET ''/api/files'' []) = Response st (Some p)
        \<and> 200 \<le> st \<and> st \<le> 299 \<longrightarrow> fst (listFiles e w) = Inr p"
    "respond e w (plain_request GET ''/api/files/search'' [(''q'', query)])
          = Response st (Some p)
        \<and> 200 \<le> st \<and> st \<le> 299 \<longrightarrow> fst (searchFiles e query w) = Inr p"
    "respond e w (deleteFile_request fileId) = Response st b
        \<and> 200 \<le> st \<and> st \<le> 299 \<longrightarrow> fst (deleteFile e fileId w) = Inr ()"
    "respond e w (plain_request POST ''/api/auth/logout'' []) = Response st b
        \<longrightarrow> fst (logout e w) = Inr ()"
    by (simp_all add: api_client_defs)
  have failed:
    "respond e w (listDriveFiles_request t q) = Response st b
        \<and> \<not> (200 \<le> st \<and> st \<le> 299)
        \<longrightarrow> fst (listDriveFiles e t q w) = Inl (Error ''Failed to fetch drive files'')"
    "respond e w (deleteFile_request fileId) = Response st b
        \<and> \<not> (200 \<le> st \<and> st \<le> 299)
        \<longrightarrow> fst (deleteFile e fileId w) = Inl (Error ''Failed to delete file'')"
    "respond e w (importFile_request f) = Response st (Some p)
        \<and> \<not> (200 \<le> st \<and> st \<le> 299)
        \<longrightarrow> fst (importFile e f w) =
             Inl (Error (case payload_error p of
                           None \<Rightarrow> ''Failed to import file''
                         | Some m \<Rightarrow> if m = [] then ''Failed to import file'' else m))"
    "respond e w (importFile_request f) = Response st None
        \<and> \<not> (200 \<le> st \<and> st \<le> 299)
        \<longrightarrow> fst (importFile e f w) = Inl JsonSyntaxError"
    by (simp_all add: api_client_defs import_error_message_def)
  from calls ok failed show ?thesis
    by blast
qed

theorem api_client_contract_witness:
  "respond ok_env [] (importFile_request file_a) = Response 200 (Some (ErrorPayload None))
   \<and> fst (getAuthStatus ok_env []) = Inr (ErrorPayload None)
   \<and> fst (getAuthUrl ok_env []) = Inr (ErrorPayload None)
   \<and> fst (listDriveFiles ok_env None None []) = Inr (ErrorPayload None)
   \<and> fst (importFile ok_env file_a []) = Inr (ErrorPayload None)
   \<and> fst (listFiles ok_env []) = Inr (ErrorPayload None)
   \<and> fst (searchFiles ok_env ''q'' []) = Inr (ErrorPayload None)
   \<and> fst (deleteFile ok_env 42 []) = Inr ()
   \<and> fst (logout ok_env []) = Inr ()
   \<and> respond failing_env [] (importFile_request file_a)
       = Response 500 (Some (ErrorPayload (Some ''boom'')))
   \<and> fst (listDriveFiles failing_env None None []) = Inl (Error ''Failed to fetch drive files'')
   \<and> fst (deleteFile failing_env 42 []) = Inl (Error ''Failed to delete file'')
   \<and> fst (importFile failing_env file_a []) = Inl (Error ''boom'')
   \<and> fst (logout failing_env []) = Inr ()
   \<and> respond gateway_env [] (importFile_request file_a) = Response 502 None
   \<and> fst (importFile gateway_env file_a []) = Inl JsonSyntaxError"
  using api_client_contract
      [of ok_env "[]" None None file_a "''q''" 42 200 "ErrorPayload None"
        "Some (ErrorPayload None)"]
    api_client_contract
      [of failing_env "[]" None None file_a "''q''" 42 500 "ErrorPayload (Some ''boom'')"
        "Some (ErrorPayload (Some ''boom''))"]
    api_client_contract
      [of gateway_env "[]" None None file_a "''q''" 42 502 "ErrorPayload None" None]
  by (simp add: ok_env_def failing_env_def gateway_env_def)

text \<open>
  The claim as stated fails for \<open>importFile\<close> and \<open>logout\<close>: two error responses give
  \<open>importFile\<close> errors with two messages, those the server sent, and \<open>logout\<close> returns
  normally on a 500.
\<close>

theorem import_error_message_from_server:
  "respond paged_env [] (importFile_request file_b)
     = Response 409 (Some (ErrorPayload (Some ''File already exists'')))
   \<and> fst (importFile paged_env file_b []) = Inl (Error ''File already exists'')
   \<and> respond failing_env [] (importFile_request file_b)
     = Response 500 (Some (ErrorPayload (Some ''boom'')))
   \<and> fst (importFile failing_env file_b []) = Inl (Error ''boom'')
   \<and> respond failing_env [] (plain_request POST ''/api/auth/logout'' [])
     = Response 500 (Some (ErrorPayload (Some ''boom'')))
   \<and> fst (logout failing_env []) = Inr ()"
  by (simp add: api_client_defs import_error_message_def importFile_request_def
      paged_env_def failing_env_def file_b_def size_arg_def)

section \<open>Failures in the handlers\<close>

lemma import_loop_append:
  "import_loop e (xs @ ys) sc ec w =
     (case import_loop e xs sc ec w of (sc1, ec1, w1) \<Rightarrow> import_loop e ys sc1 ec1 w1)"
proof (induction xs arbitrary: sc ec w)
  case Nil
  show ?case by simp
next
  case (Cons f fs)
  obtain r w' where step: "importFile e f w = (r, w')"
    by (cases "importFile e f w")
  show ?case
    by (cases r) (simp_all add: step Cons.IH)
qed

lemma import_loop_extends: "\<exists>t. snd (snd (import_loop e fs sc ec w)) = w @ t"
proof (induction fs arbitrary: sc ec w)
  case Nil
  show ?case by simp
next
  case (Cons f fs)
  obtain r w' where step: "importFile e f w = (r, w')"
    by (cases "importFile e f w")
  with importFile_events [of e f w] have w': "w' = w @ [Fetch (importFile_request f)]"
    by simp
  show ?case
  proof (cases r)
    case (Inl x)
    from Cons.IH [of sc "ec + 1" "w' @ [ConsoleError (''Failed to import '' @ d_name f @ '':'') x]"]
    show ?thesis by (auto simp add: step w' Inl)
  next
    case (Inr p)
    from Cons.IH [of "sc + 1" ec w'] show ?thesis
      by (auto simp add: step w' Inr)
  qed
qed

lemma import_loop_error_mono: "ec \<le> fst (snd (import_loop e fs sc ec w))"
proof (induction fs arbitrary: sc ec w)
  case Nil
  show ?case by simp
next
  case (Cons f fs)
  obtain r w' where step: "importFile e f w = (r, w')"
    by (cases "importFile e f w")
  show ?case
  proof (cases r)
    case (Inl x)
    from Cons.IH [of "ec + 1" sc "w' @ [ConsoleError (''Failed to import '' @ d_name f @ '':'') x]"]
    show ?thesis by (simp add: step Inl)
  next
    case (Inr p)
    from Cons.IH [of ec "sc + 1" w'] show ?thesis
      by (simp add: step Inr)
  qed
qed

lemma failed_import_surfaced:
  assumes batch: "filesToImport s = before @ f # rest"
    and before: "import_loop e before 0 0 w = (sc, ec, w1)"
    and fails: "fst (importFile e f w1) = Inl x"
  shows "(''Failed to import '' @ d_name f @ '':'', x)
           \<in> set (console_errors (events_after (handleImport e s w)))"
    and "alerts (events_after (handleImport e s w))
           = alerts w @ [import_summary (successCount e s w) (errorCount e s w)]"
proof -
  let ?logged = "w1 @ [Fetch (importFile_request f),
                       ConsoleError (''Failed to import '' @ d_name f @ '':'') x]"
  have step: "importFile e f w1 = (Inl x, w1 @ [Fetch (importFile_request f)])"
    using fails importFile_events [of e f w1] by (cases "importFile e f w1") simp
  have loop: "import_loop e (filesToImport s) 0 0 w = import_loop e rest sc (ec + 1) ?logged"
    by (simp add: batch import_loop_append before step)
  obtain t where t: "snd (snd (import_loop e rest sc (ec + 1) ?logged)) = ?logged @ t"
    using import_loop_extends [of e rest sc "ec + 1" ?logged] by blast
  have pos: "0 < errorCount e s w"
    using import_loop_error_mono [of "ec + 1" e rest sc ?logged]
    by (simp add: errorCount_def loop)
  have nonempty: "filesToImport s \<noteq> []"
    by (simp add: batch)
  have final: "snd (snd (import_loop e (filesToImport s) 0 0 w)) = ?logged @ t"
    using loop t by simp
  show "(''Failed to import '' @ d_name f @ '':'', x)
           \<in> set (console_errors (events_after (handleImport e s w)))"
    by (simp add: handleImport_events nonempty final console_errors_append)
  show "alerts (events_after (handleImport e s w))
           = alerts w @ [import_summary (successCount e s w) (errorCount e s w)]"
    using pos by (simp add: handleImport_alerts)
qed

text \<open>
  C3 (as amended). None of the handlers below rejects. When the API call of a handler
  throws: the file fetch, the Drive fetch and each import of the batch log the error to
  the console (and the batch ends with its alert); login and delete show their alert;
  the auth check catches the error without a log or an alert and switches to the
  unauthenticated state.
\<close>

theorem handler_failures_caught:
  "rejection (app_fetchFiles e a w) = None
   \<and> rejection (checkAuth e a w) = None
   \<and> fst (handleLogin e w) = None
   \<and> rejection (fetchFiles e t q s w) = None
   \<and> rejection (handleSearch e s w) = None
   \<and> rejection (handleNextPage e s w) = None
   \<and> rejection (handlePrevPage e s w) = None
   \<and> rejection (handleImport e s w) = None
   \<and> fst (handleDelete e file w) = None
   \<and> (app_searchQuery a = [] \<and> fst (listFiles e w) = Inl x \<longrightarrow>
        events_after (app_fetchFiles e a w)
          = w @ [Fetch (plain_request GET ''/api/files'' []),
                 ConsoleError ''Failed to fetch files:'' x])
   \<and> (app_searchQuery a \<noteq> [] \<and> fst (searchFiles e (app_searchQuery a) w) = Inl x \<longrightarrow>
        events_after (app_fetchFiles e a w)
          = w @ [Fetch (plain_request GET ''/api/files/search'' [(''q'', app_searchQuery a)]),
                 ConsoleError ''Failed to fetch files:'' x])
   \<and> (fst (getAuthUrl e w) = Inl x \<longrightarrow>
        snd (handleLogin e w)
          = w @ [Fetch (plain_request GET ''/api/auth/login'' []),
                 Alert ''Failed to initiate login. Please try again.''])
   \<and> (fst (listDriveFiles e t q w) = Inl x \<longrightarrow>
        events_after (fetchFiles e t q s w)
          = w @ [Fetch (listDriveFiles_request t q),
                 ConsoleError ''Failed to fetch drive files:'' x])
   \<and> (filesToImport s = before @ f # rest \<and> import_loop e before 0 0 w = (sc, ec, w1)
        \<and> fst (importFile e f w1) = Inl x \<longrightarrow>
        (''Failed to import '' @ d_name f @ '':'', x)
           \<in> set (console_errors (events_after (handleImport e s w)))
        \<and> alerts (events_after (handleImport e s w))
           = alerts w @ [import_summary (successCount e s w) (errorCount e s w)])
   \<and> (confirm_answer e w (delete_prompt file)
        \<and> fst (deleteFile e (r_id file) (w @ [Confirm (delete_prompt file)])) = Inl x \<longrightarrow>
        snd (handleDelete e file w)
          = w @ [Confirm (delete_prompt file), Fetch (deleteFile_request (r_id file)),
                 Alert ''Failed to delete file. Please try again.''])
   \<and> (fst (getAuthStatus e w) = Inl x \<longrightarrow>
        checkAuth e a w
          = (None, a\<lparr>authenticated := AuthBool False, app_loading := False\<rparr>,
             w @ [Fetch (plain_request GET ''/api/auth/status'' [])]))"
proof -
  have app_none: "rejection (app_fetchFiles e a' w') = None" for a' w'
    by (simp add: app_fetchFiles_def rejection_def split: prod.split sum.split)
  have none:
    "rejection (checkAuth e a w) = None"
    "fst (handleLogin e w) = None"
    "rejection (fetchFiles e t q s w) = None"
    "rejection (handleImport e s w) = None"
    "fst (handleDelete e file w) = None"
    using app_none
    by (simp_all add: checkAuth_def handleLogin_def fetchFiles_def handleImport_def
        handleDelete_def rejection_def split: prod.split sum.split option.split)
  have fetch_none: "rejection (fetchFiles e t' q' s' w) = None" for t' q' s'
    by (simp add: fetchFiles_def rejection_def split: prod.split sum.split)
  have nav:
    "rejection (handleSearch e s w) = None"
    "rejection (handleNextPage e s w) = None"
    "rejection (handlePrevPage e s w) = None"
    using fetch_none
    by (simp_all add: handleSearch_def handleNextPage_def handlePrevPage_def Let_def
        split: option.split, simp_all add: rejection_def)
  have files1: "app_searchQuery a = [] \<and> fst (listFiles e w) = Inl x \<longrightarrow>
        events_after (app_fetchFiles e a w)
          = w @ [Fetch (plain_request GET ''/api/files'' []),
                 ConsoleError ''Failed to fetch files:'' x]"
    by (auto simp add: app_fetchFiles_def events_after_def listFiles_def fetch_def
        API_BASE_def split: prod.split sum.split outcome.split_asm)
  have files2: "app_searchQuery a \<noteq> [] \<and> fst (searchFiles e (app_searchQuery a) w) = Inl x \<longrightarrow>
        events_after (app_fetchFiles e a w)
          = w @ [Fetch (plain_request GET ''/api/files/search'' [(''q'', app_searchQuery a)]),
                 ConsoleError ''Failed to fetch files:'' x]"
    by (auto simp add: app_fetchFiles_def events_after_def searchFiles_def fetch_def
        API_BASE_def split: prod.split sum.split outcome.split_asm)
  have login: "fst (getAuthUrl e w) = Inl x \<longrightarrow>
        snd (handleLogin e w)
          = w @ [Fetch (plain_request GET ''/api/auth/login'' []),
                 Alert ''Failed to initiate login. Please try again.'']"
    by (auto simp add: handleLogin_def getAuthUrl_def fetch_def API_BASE_def
        split: prod.split sum.split outcome.split_asm)
  have drive: "fst (listDriveFiles e t q w) = Inl x \<longrightarrow>
        events_after (fetchFiles e t q s w)
          = w @ [Fetch (listDriveFiles_request t q),
                 ConsoleError ''Failed to fetch drive files:'' x]"
    by (auto simp add: fetchFiles_def events_after_def listDriveFiles_def fetch_def
        split: prod.split sum.split outcome.split_asm if_split_asm)
  have del: "confirm_answer e w (delete_prompt file)
        \<and> fst (deleteFile e (r_id file) (w @ [Confirm (delete_prompt file)])) = Inl x \<longrightarrow>
        snd (handleDelete e file w)
          = w @ [Confirm (delete_prompt file), Fetch (deleteFile_request (r_id file)),
                 Alert ''Failed to delete file. Please try again.'']"
    by (auto simp add: handleDelete_def deleteFile_def fetch_def
        split: prod.split sum.split outcome.split_asm if_split_asm)
  have auth: "fst (getAuthStatus e w) = Inl x \<longrightarrow>
        checkAuth e a w
          = (None, a\<lparr>authenticated := AuthBool False, app_loading := False\<rparr>,
             w @ [Fetch (plain_request GET ''/api/auth/status'' [])])"
    by (auto simp add: checkAuth_def getAuthStatus_def fetch_def API_BASE_def
        split: prod.split sum.split outcome.split_asm)
  from app_none [of a w] none nav files1 files2 login drive del auth
    failed_import_surfaced [of s before f rest e w sc ec w1 x]
  show ?thesis
    by blast
qed

theorem handler_failures_caught_witness:
  "app_searchQuery app_initial = [] \<and> fst (listFiles down_env []) = Inl NetworkFailure
   \<and> events_after (app_fetchFiles down_env app_initial [])
       = [Fetch (plain_request GET ''/api/files'' []),
          ConsoleError ''Failed to fetch files:'' NetworkFailure]
   \<and> app_searchQuery app_searching \<noteq> []
   \<and> fst (searchFiles down_env (app_searchQuery app_searching) []) = Inl NetworkFailure
   \<and> events_after (app_fetchFiles down_env app_searching [])
       = [Fetch (plain_request GET ''/api/files/search'' [(''q'', ''q'')]),
          ConsoleError ''Failed to fetch files:'' NetworkFailure]
   \<and> fst (getAuthUrl down_env []) = Inl NetworkFailure
   \<and> snd (handleLogin down_env [])
       = [Fetch (plain_request GET ''/api/auth/login'' []),
          Alert ''Failed to initiate login. Please try again.'']
   \<and> fst (listDriveFiles down_env None None []) = Inl NetworkFailure
   \<and> events_after (fetchFiles down_env None None both_selected [])
       = [Fetch (listDriveFiles_request None None),
          ConsoleError ''Failed to fetch drive files:'' NetworkFailure]
   \<and> filesToImport both_selected = [] @ file_a # [file_b]
   \<and> import_loop down_env [] 0 0 [] = (0, 0, [])
   \<and> fst (importFile down_env file_a []) = Inl NetworkFailure
   \<and> (''Failed to import a.pdf:'', NetworkFailure)
       \<in> set (console_errors (events_after (handleImport down_env both_selected [])))
   \<and> alerts (events_after (handleImport down_env both_selected []))
       = [import_summary (successCount down_env both_selected [])
            (errorCount down_env both_selected [])]
   \<and> confirm_answer down_env [] (delete_prompt stored_a)
   \<and> fst (deleteFile down_env (r_id stored_a) [Confirm (delete_prompt stored_a)])
       = Inl NetworkFailure
   \<and> snd (handleDelete down_env stored_a [])
       = [Confirm (delete_prompt stored_a), Fetch (deleteFile_request 42),
          Alert ''Failed to delete file. Please try again.'']
   \<and> fst (getAuthStatus down_env []) = Inl NetworkFailure
   \<and> checkAuth down_env app_initial []
       = (None,
          \<lparr>authenticated = AuthBool False, app_files = Some [], app_loading = False,
           app_searchQuery = [], showPicker = False\<rparr>,
          [Fetch (plain_request GET ''/api/auth/status'' [])])"
proof -
  have calls:
    "fst (listFiles down_env []) = Inl NetworkFailure"
    "fst (searchFiles down_env (app_searchQuery app_searching) []) = Inl NetworkFailure"
    "fst (getAuthUrl down_env []) = Inl NetworkFailure"
    "fst (listDriveFiles down_env None None []) = Inl NetworkFailure"
    "fst (importFile down_env file_a []) = Inl NetworkFailure"
    "fst (deleteFile down_env (r_id stored_a) [Confirm (delete_prompt stored_a)])
       = Inl NetworkFailure"
    "fst (getAuthStatus down_env []) = Inl NetworkFailure"
    by (simp_all add: api_client_defs down_env_def)
  have inputs:
    "app_searchQuery app_initial = []"
    "app_searchQuery app_searching = ''q''"
    "filesToImport both_selected = [] @ file_a # [file_b]"
    "import_loop down_env [] 0 0 [] = (0, 0, [])"
    "confirm_answer down_env [] (delete_prompt stored_a)"
    "r_id stored_a = 42"
    "d_name file_a = ''a.pdf''"
    "app_initial\<lparr>authenticated := AuthBool False, app_loading := False\<rparr>
       = \<lparr>authenticated = AuthBool False, app_files = Some [], app_loading = False,
          app_searchQuery = [], showPicker = False\<rparr>"
    by (simp_all add: app_initial_def app_searching_def app_logged_in_def both_selected_batch
        down_env_def stored_a_def file_a_def)
  show ?thesis
    using handler_failures_caught
        [of down_env app_initial "[]" None None both_selected stored_a NetworkFailure
          "[]" file_a "[file_b]" 0 0 "[]"]
      handler_failures_caught
        [of down_env app_searching "[]" None None both_selected stored_a NetworkFailure
          "[]" file_a "[file_b]" 0 0 "[]"]
      calls inputs
    by simp
qed

text \<open>
  The claim as stated fails for the auth check: with no connection, \<open>checkAuth\<close> catches
  the error and only sets the state; nothing is logged and no alert is shown.
\<close>

theorem auth_check_failure_is_silent:
  "checkAuth down_env app_initial []
     = (None,
        \<lparr>authenticated = AuthBool False, app_files = Some [], app_loading = False,
         app_searchQuery = [], showPicker = False\<rparr>,
        [Fetch (plain_request GET ''/api/auth/status'' [])])
   \<and> console_errors (events_after (checkAuth down_env app_initial [])) = []
   \<and> alerts (events_after (checkAuth down_env app_initial [])) = []"
  by (simp add: checkAuth_def getAuthStatus_def fetch_def down_env_def app_initial_def
      API_BASE_def events_after_def)

end
